theory Spec2Isabelle
  imports Complex_Main
begin

section \<open>The sales funnel dashboard (app.py)\<close>

text \<open>
  The program is one Python file. Its computational core is the function
  \<^verbatim>\<open>create_funnel_plan\<close> (the planner: final counts per stage and a linear ramp per
  stage) and the module-level loop that builds \<^verbatim>\<open>actual_df\<close> from the entered data
  points. Widgets, plotting and the table are presentation and are not modelled.

  Numbers. \<^verbatim>\<open>target_wins\<close>, \<^verbatim>\<open>total_periods\<close>, the period \<^verbatim>\<open>t\<close> of a data point and
  the entered stage values are Python integers (\<open>int\<close>; \<open>nat\<close> for \<^verbatim>\<open>t\<close>, whose slider
  starts at 0). \<^verbatim>\<open>conversion_rate\<close>, the multiplier and the samples of a series are
  Python floats; they are modelled as exact rationals (\<open>rat\<close>), the numbers the
  specification calls real. The model therefore says nothing about binary64 rounding
  error, overflow to infinity or NaN.
\<close>

subsection \<open>Errors\<close>

text \<open>The exceptions the modelled code can raise; a computation returns \<open>error + 'a\<close>.\<close>

datatype error = ZeroDivisionError | ValueError | KeyError

subsection \<open>Library functions the program calls\<close>

text \<open>
  Python's built-in \<^verbatim>\<open>round(x)\<close> with one argument: the nearest integer, a tie going
  to the even neighbour.
\<close>

definition py_round :: "rat \<Rightarrow> int" where
  "py_round x =
     (let f = \<lfloor>x\<rfloor>; d = x - of_int f in
      if d < 1 / 2 then f
      else if 1 / 2 < d then f + 1
      else if even f then f else f + 1)"

text \<open>\<^verbatim>\<open>np.arange(n)\<close>: the integers \<open>0, ..., n - 1\<close>; empty when \<open>n \<le> 0\<close>.\<close>

definition arange :: "int \<Rightarrow> rat list" where
  "arange n = map of_nat [0..<nat n]"

text \<open>
  \<^verbatim>\<open>np.linspace(start, stop, num)\<close> (endpoint included), following NumPy's
  implementation:
  \<^verbatim>\<open>
    if num < 0: raise ValueError
    div = num - 1
    delta = stop - start
    y = arange(0, num)
    if div > 0:
        step = delta / div
        if step == 0: y = y / div; y = y * delta
        else:         y = y * step
    else:
        y = y * delta
    y += start
    if num > 1: y[-1] = stop
  \<close>
\<close>

definition linspace :: "rat \<Rightarrow> rat \<Rightarrow> int \<Rightarrow> error + rat list" where
  "linspace start stop num =
     (if num < 0 then Inl ValueError
      else
        let divisor = num - 1;
            delta = stop - start;
            y = arange num;
            y1 = (if 0 < divisor then
                    (let step = delta / of_int divisor in
                     if step = 0 then map (\<lambda>v. v / of_int divisor * delta) y
                     else map (\<lambda>v. v * step) y)
                  else map (\<lambda>v. v * delta) y);
            y2 = map (\<lambda>v. v + start) y1
        in Inr (if 1 < num then y2[nat num - 1 := stop] else y2))"

subsection \<open>Data\<close>

text \<open>Line 7: the funnel stages in order.\<close>

definition stages :: "string list" where
  "stages = [''Expression of Interest'', ''Conversations'', ''Deep Conversations'',
             ''Proposals'', ''Wins'']"

text \<open>
  A pandas data frame, as far as the program uses one: named columns of numbers, all of
  the same length. The element type of a column (int64 or float64, and the upcast pandas
  performs when floats are written into an integer column) is not modelled: a column
  holds rationals. A Python dictionary is a map as well.
\<close>

type_synonym frame = "string \<rightharpoonup> rat list"

subsection \<open>The planner: \<^verbatim>\<open>create_funnel_plan\<close>\<close>

text \<open>
  Lines 20--23, the loop over \<^verbatim>\<open>reversed(stages)\<close>:
  \<^verbatim>\<open>
    for stage in reversed(stages):
        final_counts[stage] = target_wins * multiplier
        multiplier /= conversion_rate
  \<close>
  The division raises \<^verbatim>\<open>ZeroDivisionError\<close> when \<^verbatim>\<open>conversion_rate\<close> is zero.
\<close>

fun funnel_loop ::
  "string list \<Rightarrow> int \<Rightarrow> rat \<Rightarrow> (string \<rightharpoonup> rat) \<Rightarrow> rat \<Rightarrow> error + (string \<rightharpoonup> rat)"
where
  "funnel_loop [] target_wins conversion_rate final_counts multiplier = Inr final_counts"
| "funnel_loop (stage # rest) target_wins conversion_rate final_counts multiplier =
     (let final_counts' = final_counts(stage \<mapsto> of_int target_wins * multiplier)
      in if conversion_rate = 0 then Inl ZeroDivisionError
         else funnel_loop rest target_wins conversion_rate final_counts'
                (multiplier / conversion_rate))"

text \<open>
  Lines 19--24: the dictionary \<^verbatim>\<open>final_counts\<close> after the rounding comprehension
  \<^verbatim>\<open>{stage: int(round(val)) for stage, val in final_counts.items()}\<close>.
\<close>

definition final_counts :: "int \<Rightarrow> rat \<Rightarrow> error + (string \<rightharpoonup> int)" where
  "final_counts target_wins conversion_rate =
     (case funnel_loop (rev stages) target_wins conversion_rate Map.empty 1 of
        Inl e \<Rightarrow> Inl e
      | Inr fc \<Rightarrow> Inr (\<lambda>stage. map_option py_round (fc stage)))"

text \<open>
  Lines 29--30:
  \<^verbatim>\<open>
    for stage in stages:
        data[stage] = np.linspace(0, final_counts[stage], total_periods)
  \<close>
\<close>

fun plan_loop :: "string list \<Rightarrow> (string \<rightharpoonup> int) \<Rightarrow> int \<Rightarrow> frame \<Rightarrow> error + frame" where
  "plan_loop [] fc total_periods data = Inr data"
| "plan_loop (stage # rest) fc total_periods data =
     (case fc stage of
        None \<Rightarrow> Inl KeyError
      | Some c \<Rightarrow>
          (case linspace 0 (of_int c) total_periods of
             Inl e \<Rightarrow> Inl e
           | Inr col \<Rightarrow> plan_loop rest fc total_periods (data(stage \<mapsto> col))))"

text \<open>Lines 18--33: the planner returns the frame and the label of its time column.\<close>

definition create_funnel_plan :: "string \<Rightarrow> int \<Rightarrow> int \<Rightarrow> rat \<Rightarrow> error + (frame \<times> string)" where
  "create_funnel_plan duration total_periods target_wins conversion_rate =
     (case final_counts target_wins conversion_rate of
        Inl e \<Rightarrow> Inl e
      | Inr fc \<Rightarrow>
          (let time_label = (if duration = ''weekly'' then ''Week'' else ''Day'');
               time = arange total_periods;
               data = [time_label \<mapsto> time]
           in case plan_loop stages fc total_periods data of
                Inl e \<Rightarrow> Inl e
              | Inr df \<Rightarrow> Inr (df, time_label)))"

text \<open>
  Reading one entry: \<^verbatim>\<open>final_counts[stage]\<close> inside the planner, and
  \<^verbatim>\<open>planned_df[stage]\<close> and the returned label on the planner's result.
\<close>

definition final_target :: "int \<Rightarrow> rat \<Rightarrow> string \<Rightarrow> error + int" where
  "final_target target_wins conversion_rate stage =
     (case final_counts target_wins conversion_rate of
        Inl e \<Rightarrow> Inl e
      | Inr fc \<Rightarrow> (case fc stage of None \<Rightarrow> Inl KeyError | Some c \<Rightarrow> Inr c))"

definition planned_series :: "string \<Rightarrow> int \<Rightarrow> int \<Rightarrow> rat \<Rightarrow> string \<Rightarrow> error + rat list" where
  "planned_series duration total_periods target_wins conversion_rate stage =
     (case create_funnel_plan duration total_periods target_wins conversion_rate of
        Inl e \<Rightarrow> Inl e
      | Inr (df, time_label) \<Rightarrow>
          (case df stage of None \<Rightarrow> Inl KeyError | Some col \<Rightarrow> Inr col))"


subsection \<open>The actual series: lines 96--107\<close>

text \<open>
  The boolean row selections \<^verbatim>\<open>df[column] <= t\<close> and \<^verbatim>\<open>df[column] > t\<close>; reading a
  column that is not there raises \<^verbatim>\<open>KeyError\<close>.
\<close>

definition column_le :: "frame \<Rightarrow> string \<Rightarrow> rat \<Rightarrow> error + bool list" where
  "column_le df column t =
     (case df column of None \<Rightarrow> Inl KeyError | Some c \<Rightarrow> Inr (map (\<lambda>x. x \<le> t) c))"

definition column_gt :: "frame \<Rightarrow> string \<Rightarrow> rat \<Rightarrow> error + bool list" where
  "column_gt df column t =
     (case df column of None \<Rightarrow> Inl KeyError | Some c \<Rightarrow> Inr (map (\<lambda>x. t < x) c))"

text \<open>
  \<^verbatim>\<open>df.loc[mask, column] = vals\<close> with a sequence \<^verbatim>\<open>vals\<close>: the selected rows take
  its elements in order; pandas raises \<^verbatim>\<open>ValueError\<close> when the number of elements is
  not the number of selected rows. \<open>scatter\<close> writes them into the selected rows. The
  program assigns to stage columns only, which exist from the initialisation on; the
  model answers \<open>KeyError\<close> for a frame without the column, which the program never
  builds.
\<close>

fun scatter :: "bool list \<Rightarrow> rat list \<Rightarrow> rat list \<Rightarrow> rat list" where
  "scatter (b # sel) (c # col) vals =
     (if b then (case vals of [] \<Rightarrow> c # scatter sel col [] | v # vals' \<Rightarrow> v # scatter sel col vals')
      else c # scatter sel col vals)"
| "scatter sel col vals = col"

definition loc_set_values :: "frame \<Rightarrow> bool list \<Rightarrow> string \<Rightarrow> rat list \<Rightarrow> error + frame" where
  "loc_set_values df sel column vals =
     (case df column of
        None \<Rightarrow> Inl KeyError
      | Some col \<Rightarrow>
          if length (filter (\<lambda>b. b) sel) \<noteq> length vals then Inl ValueError
          else Inr (df(column \<mapsto> scatter sel col vals)))"

text \<open>\<^verbatim>\<open>df.loc[mask, column] = val\<close> with a scalar: every selected row takes it.\<close>

definition loc_set_scalar :: "frame \<Rightarrow> bool list \<Rightarrow> string \<Rightarrow> rat \<Rightarrow> error + frame" where
  "loc_set_scalar df sel column val =
     (case df column of
        None \<Rightarrow> Inl KeyError
      | Some col \<Rightarrow> Inr (df(column \<mapsto> map2 (\<lambda>b c. if b then val else c) sel col)))"

text \<open>
  Lines 97--99: the frame \<^verbatim>\<open>actual_df\<close> gets the planner's time column and a column of
  zeros per stage.
\<close>

definition init_actual_df :: "string \<Rightarrow> frame \<Rightarrow> error + frame" where
  "init_actual_df time_label planned_df =
     (case planned_df time_label of
        None \<Rightarrow> Inl KeyError
      | Some time \<Rightarrow>
          Inr (fold (\<lambda>stage df. df(stage \<mapsto> replicate (length time) 0)) stages
                 [time_label \<mapsto> time]))"

text \<open>
  Lines 104--107, the body of the inner loop for one stage:
  \<^verbatim>\<open>
    val = values[stage]
    linear_vals = np.linspace(0, val, t + 1) if t > 0 else [val]
    actual_df.loc[actual_df[time_label] <= t, stage] = linear_vals
    actual_df.loc[actual_df[time_label] > t, stage] = val
  \<close>
\<close>

definition apply_stage ::
  "string \<Rightarrow> nat \<Rightarrow> (string \<rightharpoonup> int) \<Rightarrow> string \<Rightarrow> frame \<Rightarrow> error + frame"
where
  "apply_stage time_label t stage_values stage actual_df =
     (case stage_values stage of
        None \<Rightarrow> Inl KeyError
      | Some val \<Rightarrow>
          (case (if 0 < t then linspace 0 (of_int val) (int t + 1) else Inr [of_int val]) of
             Inl e \<Rightarrow> Inl e
           | Inr linear_vals \<Rightarrow>
               (case column_le actual_df time_label (of_nat t) of
                  Inl e \<Rightarrow> Inl e
                | Inr sel_le \<Rightarrow>
                    (case loc_set_values actual_df sel_le stage linear_vals of
                       Inl e \<Rightarrow> Inl e
                     | Inr df \<Rightarrow>
                         (case column_gt df time_label (of_nat t) of
                            Inl e \<Rightarrow> Inl e
                          | Inr sel_gt \<Rightarrow> loc_set_scalar df sel_gt stage (of_int val))))))"

text \<open>Lines 103--107: the inner loop over the stages, for one data point.\<close>

fun apply_point ::
  "string \<Rightarrow> string list \<Rightarrow> nat \<Rightarrow> (string \<rightharpoonup> int) \<Rightarrow> frame \<Rightarrow> error + frame"
where
  "apply_point time_label [] t stage_values actual_df = Inr actual_df"
| "apply_point time_label (stage # rest) t stage_values actual_df =
     (case apply_stage time_label t stage_values stage actual_df of
        Inl e \<Rightarrow> Inl e
      | Inr df \<Rightarrow> apply_point time_label rest t stage_values df)"

text \<open>Lines 102--107: the outer loop over \<^verbatim>\<open>actual_data\<close>.\<close>

fun apply_actual_data ::
  "string \<Rightarrow> (nat \<times> (string \<rightharpoonup> int)) list \<Rightarrow> frame \<Rightarrow> error + frame"
where
  "apply_actual_data time_label [] actual_df = Inr actual_df"
| "apply_actual_data time_label ((t, stage_values) # rest) actual_df =
     (case apply_point time_label stages t stage_values actual_df of
        Inl e \<Rightarrow> Inl e
      | Inr df \<Rightarrow> apply_actual_data time_label rest df)"

text \<open>Lines 96--107 together, and reading one column of the result (\<^verbatim>\<open>actual_df[stage]\<close>).\<close>

definition build_actual_df ::
  "string \<Rightarrow> frame \<Rightarrow> (nat \<times> (string \<rightharpoonup> int)) list \<Rightarrow> error + frame"
where
  "build_actual_df time_label planned_df actual_data =
     (case init_actual_df time_label planned_df of
        Inl e \<Rightarrow> Inl e
      | Inr actual_df \<Rightarrow> apply_actual_data time_label actual_data actual_df)"

definition actual_series ::
  "string \<Rightarrow> frame \<Rightarrow> (nat \<times> (string \<rightharpoonup> int)) list \<Rightarrow> string \<Rightarrow> error + rat list"
where
  "actual_series time_label planned_df actual_data stage =
     (case build_actual_df time_label planned_df actual_data of
        Inl e \<Rightarrow> Inl e
      | Inr df \<Rightarrow> (case df stage of None \<Rightarrow> Inl KeyError | Some col \<Rightarrow> Inr col))"

subsection \<open>Notation for the statements\<close>


section \<open>Rounding\<close>






section \<open>The final counts\<close>


lemma funnel_loop_Inr: "r \<noteq> 0 \<Longrightarrow> \<exists>fc'. funnel_loop ss w r fc m = Inr fc'"
  by (induction ss arbitrary: fc m) simp_all

lemma funnel_loop_notin:
  "funnel_loop ss w r fc m = Inr fc' \<Longrightarrow> s \<notin> set ss \<Longrightarrow> fc' s = fc s"
  by (induction ss arbitrary: fc m) (auto simp add: Let_def split: if_splits)

lemma funnel_loop_nth:
  "funnel_loop ss w r fc m = Inr fc' \<Longrightarrow> distinct ss \<Longrightarrow> k < length ss \<Longrightarrow>
   fc' (ss ! k) = Some (of_int w * (m * (1 / r) ^ k))"
proof (induction ss arbitrary: fc m k)
  case Nil
  then show ?case by simp
next
  case (Cons s ss)
  from Cons.prems(1) have r: "r \<noteq> 0"
    and rest: "funnel_loop ss w r (fc(s \<mapsto> of_int w * m)) (m / r) = Inr fc'"
    by (auto simp add: Let_def split: if_splits)
  show ?case
  proof (cases k)
    case 0
    with Cons.prems(2) funnel_loop_notin [OF rest, of s] show ?thesis by simp
  next
    case (Suc j)
    with Cons.prems have "fc' (ss ! j) = Some (of_int w * (m / r * (1 / r) ^ j))"
      using Cons.IH [OF rest] by simp
    with Suc show ?thesis by (simp add: field_simps)
  qed
qed

lemma funnel_loop_dom:
  "funnel_loop ss w r fc m = Inr fc' \<Longrightarrow> s \<in> set ss \<Longrightarrow> fc' s \<noteq> None"
proof (induction ss arbitrary: fc m)
  case Nil
  then show ?case by simp
next
  case (Cons a ss)
  from Cons.prems(1) have rest: "funnel_loop ss w r (fc(a \<mapsto> of_int w * m)) (m / r) = Inr fc'"
    by (auto simp add: Let_def split: if_splits)
  show ?case
  proof (cases "s \<in> set ss")
    case True
    then show ?thesis using Cons.IH [OF rest] by simp
  next
    case False
    with Cons.prems(2) have "s = a" by simp
    with False funnel_loop_notin [OF rest, of s] show ?thesis by simp
  qed
qed

lemma distinct_stages: "distinct stages"
  by (simp add: stages_def)

lemma length_stages: "length stages = 5"
  by (simp add: stages_def)


lemma final_target_nth:
  assumes "r \<noteq> 0" and "k < length stages"
  shows "final_target w r (rev stages ! k) = Inr (py_round (of_int w * (1 / r) ^ k))"
proof -
  obtain fc where fc: "funnel_loop (rev stages) w r Map.empty 1 = Inr fc"
    using funnel_loop_Inr [OF assms(1)] by blast
  have "fc (rev stages ! k) = Some (of_int w * (1 * (1 / r) ^ k))"
    using funnel_loop_nth [OF fc] assms(2) distinct_stages by simp
  with fc show ?thesis
    by (simp add: final_target_def final_counts_def)
qed


section \<open>The linear ramp\<close>

lemma length_arange: "length (arange n) = nat n"
  by (simp add: arange_def)

lemma nth_arange: "i < nat n \<Longrightarrow> arange n ! i = of_nat i"
  by (simp add: arange_def)

lemma linspace_negative: "num < 0 \<Longrightarrow> linspace start stop num = Inl ValueError"
  by (simp add: linspace_def)


lemma linspace_Inr: "0 \<le> num \<Longrightarrow> \<exists>ys. linspace start stop num = Inr ys \<and> length ys = nat num"
  by (simp add: linspace_def Let_def length_arange)

lemma linspace_nth:
  assumes "2 \<le> num" and "linspace 0 v num = Inr ys" and "i < nat num"
  shows "ys ! i = v * of_nat i / of_int (num - 1)"
proof -
  have d: "of_int (num - 1) \<noteq> (0::rat)" using assms(1) by simp
  show ?thesis
  proof (cases "i = nat num - 1")
    case True
    then have "of_nat i = (of_int (num - 1) :: rat)"
      using assms(1) by (simp add: of_nat_diff)
    moreover have "ys ! i = v"
      using assms True by (auto simp add: linspace_def Let_def length_arange split: if_splits)
    ultimately show ?thesis using d by simp
  next
    case False
    then show ?thesis
      using assms d by (auto simp add: linspace_def Let_def length_arange nth_arange split: if_splits)
  qed
qed



section \<open>The planned frame\<close>

lemma plan_loop_result:
  assumes "0 \<le> n" and "\<forall>s\<in>set ss. fc s \<noteq> None"
  shows "\<exists>df. plan_loop ss fc n data = Inr df \<and>
           (\<forall>s. df s = (if s \<in> set ss
                         then Some (projr (linspace 0 (of_int (the (fc s))) n))
                         else data s))"
  using assms(2)
proof (induction ss arbitrary: data)
  case Nil
  then show ?case by simp
next
  case (Cons a ss)
  from Cons.prems obtain c where c: "fc a = Some c" by auto
  obtain col where col: "linspace 0 (of_int c) n = Inr col"
    using linspace_Inr [OF assms(1)] by blast
  from Cons.prems have "\<forall>s\<in>set ss. fc s \<noteq> None" by simp
  from Cons.IH [OF this, of "data(a \<mapsto> col)"] obtain df
    where df: "plan_loop ss fc n (data(a \<mapsto> col)) = Inr df"
      and cols: "\<forall>s. df s = (if s \<in> set ss
                         then Some (projr (linspace 0 (of_int (the (fc s))) n))
                         else (data(a \<mapsto> col)) s)"
    by blast
  have "plan_loop (a # ss) fc n data = Inr df"
    using c col df by simp
  moreover have "df s = (if s \<in> set (a # ss)
                         then Some (projr (linspace 0 (of_int (the (fc s))) n))
                         else data s)" for s
    using cols c col by (cases "s = a") simp_all
  ultimately show ?case by blast
qed

lemma final_counts_Inr:
  assumes "r \<noteq> 0"
  shows "\<exists>fc. final_counts w r = Inr fc \<and> (\<forall>s\<in>set stages. fc s \<noteq> None)"
proof -
  obtain fc where fc: "funnel_loop (rev stages) w r Map.empty 1 = Inr fc"
    using funnel_loop_Inr [OF assms] by blast
  have "fc s \<noteq> None" if "s \<in> set stages" for s
    using funnel_loop_dom [OF fc, of s] that by simp
  with fc show ?thesis by (simp add: final_counts_def)
qed

lemma time_label_not_stage:
  "(if duration = ''weekly'' then ''Week'' else ''Day'') \<notin> set stages"
  by (simp add: stages_def)

lemma create_funnel_plan_result:
  assumes "r \<noteq> 0" and "0 \<le> n"
  shows "\<exists>df fc. create_funnel_plan d n w r =
                   Inr (df, if d = ''weekly'' then ''Week'' else ''Day'') \<and>
           final_counts w r = Inr fc \<and>
           df (if d = ''weekly'' then ''Week'' else ''Day'') = Some (arange n) \<and>
           (\<forall>s\<in>set stages. fc s \<noteq> None \<and>
              df s = Some (projr (linspace 0 (of_int (the (fc s))) n)))"
proof -
  obtain fc where fc: "final_counts w r = Inr fc" and dom: "\<forall>s\<in>set stages. fc s \<noteq> None"
    using final_counts_Inr [OF assms(1)] by blast
  let ?tl = "if d = ''weekly'' then ''Week'' else ''Day''"
  obtain df where df: "plan_loop stages fc n [?tl \<mapsto> arange n] = Inr df"
    and cols: "\<forall>s. df s = (if s \<in> set stages
                         then Some (projr (linspace 0 (of_int (the (fc s))) n))
                         else [?tl \<mapsto> arange n] s)"
    using plan_loop_result [OF assms(2) dom] by blast
  have "create_funnel_plan d n w r = Inr (df, ?tl)"
    using fc df by (simp add: create_funnel_plan_def)
  moreover have "df ?tl = Some (arange n)"
    using cols time_label_not_stage [of d] by simp
  ultimately show ?thesis using fc dom cols by auto
qed

lemma planned_series_eq:
  assumes "r \<noteq> 0" and "0 \<le> n" and "s \<in> set stages"
  shows "\<exists>c. final_target w r s = Inr c \<and> planned_series d n w r s = linspace 0 (of_int c) n"
proof -
  obtain df fc where plan: "create_funnel_plan d n w r =
                   Inr (df, if d = ''weekly'' then ''Week'' else ''Day'')"
    and fc: "final_counts w r = Inr fc"
    and cols: "\<forall>s\<in>set stages. fc s \<noteq> None \<and>
              df s = Some (projr (linspace 0 (of_int (the (fc s))) n))"
    using create_funnel_plan_result [OF assms(1,2)] by blast
  from cols assms(3) obtain c where c: "fc s = Some c"
    and col: "df s = Some (projr (linspace 0 (of_int c) n))" by auto
  obtain ys where ys: "linspace 0 (of_int c) n = Inr ys"
    using linspace_Inr [OF assms(2)] by blast
  have "final_target w r s = Inr c"
    using fc c by (simp add: final_target_def)
  moreover have "planned_series d n w r s = linspace 0 (of_int c) n"
    using plan col ys by (simp add: planned_series_def)
  ultimately show ?thesis by blast
qed



text \<open>A negative number of periods makes \<^verbatim>\<open>np.linspace\<close> raise.\<close>

lemma create_funnel_plan_negative_periods:
  assumes "r \<noteq> 0" and "n < 0"
  shows "create_funnel_plan d n w r = Inl ValueError"
proof -
  obtain fc where fc: "final_counts w r = Inr fc" and dom: "\<forall>s\<in>set stages. fc s \<noteq> None"
    using final_counts_Inr [OF assms(1)] by blast
  then obtain c where "fc ''Expression of Interest'' = Some c"
    by (auto simp add: stages_def)
  then have "plan_loop stages fc n data = Inl ValueError" for data
    using assms(2) by (simp add: stages_def linspace_negative)
  with fc show ?thesis by (simp add: create_funnel_plan_def)
qed

section \<open>Final targets\<close>






section \<open>The planned series\<close>





text \<open>
  C9. With \<^verbatim>\<open>target_wins\<close> 4, conversion rate 0.5 and 5 periods the final targets are
  Wins 4, Proposals 8, Deep Conversations 16, Conversations 32 and Expression of
  Interest 64, and the planned series of Wins is 0, 1, 2, 3, 4.
\<close>

theorem concrete_scenario:
  "final_target 4 (1 / 2) ''Wins'' = Inr 4 \<and>
   final_target 4 (1 / 2) ''Proposals'' = Inr 8 \<and>
   final_target 4 (1 / 2) ''Deep Conversations'' = Inr 16 \<and>
   final_target 4 (1 / 2) ''Conversations'' = Inr 32 \<and>
   final_target 4 (1 / 2) ''Expression of Interest'' = Inr 64 \<and>
   planned_series duration 5 4 (1 / 2) ''Wins'' = Inr [0, 1, 2, 3, 4]"
proof -
  have r: "(1 / 2 :: rat) \<noteq> 0" by simp
  have t: "final_target 4 (1 / 2) (rev stages ! k) = Inr (py_round (4 * 2 ^ k))"
    if "k < 5" for k
    using final_target_nth [OF r, of k 4] that by (simp add: length_stages)
  have wins: "final_target 4 (1 / 2) ''Wins'' = Inr 4"
    using t [of 0] by (simp add: stages_def py_round_def)
  have "''Wins'' \<in> set stages" by (simp add: stages_def)
  from planned_series_eq [OF r _ this, of 5 4 duration] wins
  have "planned_series duration 5 4 (1 / 2) ''Wins'' = linspace 0 4 5" by simp
  also have "\<dots> = Inr [0, 1, 2, 3, 4]"
    by (simp add: linspace_def arange_def upt_rec numeral_eq_Suc)
  finally have series: "planned_series duration 5 4 (1 / 2) ''Wins'' = Inr [0, 1, 2, 3, 4]" .
  show ?thesis
    using wins t [of 1] t [of 2] t [of 3] t [of 4] series
    by (simp add: stages_def py_round_def)
qed

section \<open>Boundary inputs and the time label\<close>









section \<open>One data point\<close>







lemma linspace_ramp:
  assumes "0 < t"
  shows "linspace 0 v (int t + 1) = Inr (map (\<lambda>p. v * of_nat p / of_nat t) [0..<Suc t])"
proof -
  have n: "2 \<le> int t + 1" using assms by simp
  obtain ys where ys: "linspace 0 v (int t + 1) = Inr ys" and len: "length ys = nat (int t + 1)"
    using linspace_Inr [of "int t + 1" 0 v] by auto
  have "ys = map (\<lambda>p. v * of_nat p / of_nat t) [0..<Suc t]"
  proof (rule nth_equalityI)
    show "length ys = length (map (\<lambda>p. v * of_nat p / of_nat t) [0..<Suc t])"
      using len by simp
  next
    fix i assume "i < length ys"
    with len have i: "i < nat (int t + 1)" by simp
    then have "i < Suc t" by simp
    then show "ys ! i = map (\<lambda>p. v * of_nat p / of_nat t) [0..<Suc t] ! i"
      using linspace_nth [OF n ys i] by (simp del: upt_Suc)
  qed
  with ys show ?thesis by simp
qed




text \<open>
  A period beyond the axis: the ramp has more samples than the frame has rows, and the
  first assignment raises.
\<close>

lemma apply_stage_outside_axis:
  assumes "df lbl = Some (arange n)" and "1 \<le> n" and "n \<le> int t"
    and "stage_values s = Some v" and "df s = Some col"
  shows "apply_stage lbl t stage_values s df = Inl ValueError"
proof -
  have t: "0 < t" using assms(2,3) by simp
  have sel: "map (\<lambda>x. x \<le> of_nat t) (arange n) = replicate (nat n) True"
  proof (rule nth_equalityI)
    show "length (map (\<lambda>x. x \<le> of_nat t) (arange n)) = length (replicate (nat n) True)"
      by (simp add: length_arange)
  next
    fix i assume "i < length (map (\<lambda>x. x \<le> of_nat t) (arange n))"
    then have "i < nat n" by (simp add: length_arange)
    then show "map (\<lambda>x. x \<le> of_nat t) (arange n) ! i = replicate (nat n) True ! i"
      using assms(3) by (simp add: length_arange nth_arange)
  qed
  have sel1: "column_le df lbl (of_nat t) = Inr (replicate (nat n) True)"
    using assms(1) sel by (simp add: column_le_def)
  have "nat n \<noteq> Suc t" using assms(3) by simp
  then have set1: "loc_set_values df (replicate (nat n) True) s
               (map (\<lambda>p. of_int v * of_nat p / of_nat t) [0..<Suc t]) = Inl ValueError"
    using assms(5) by (simp add: loc_set_values_def)
  show ?thesis
    unfolding apply_stage_def
    by (simp only: assms(4) t linspace_ramp [OF t] sel1 set1 if_True option.case sum.case)
qed

section \<open>All data points\<close>




lemma fold_columns:
  "fold (\<lambda>stage df. df(stage \<mapsto> c)) ss df0 = (\<lambda>k. if k \<in> set ss then Some c else df0 k)"
  by (induction ss arbitrary: df0) (auto simp add: fun_eq_iff)

lemma init_actual_df_result:
  assumes "planned_df lbl = Some time"
  shows "init_actual_df lbl planned_df =
           Inr (\<lambda>k. if k \<in> set stages then Some (replicate (length time) 0)
                     else [lbl \<mapsto> time] k)"
  using assms by (simp add: init_actual_df_def fold_columns)

text \<open>Without data points every stage keeps its column of zeros.\<close>

lemma no_data_points:
  assumes "planned_df lbl = Some (arange n)" and "s \<in> set stages"
  shows "actual_series lbl planned_df [] s = Inr (replicate (nat n) 0)"
  using init_actual_df_result [where planned_df = planned_df and lbl = lbl, OF assms(1)] assms(2)
  by (simp add: actual_series_def build_actual_df_def length_arange)

section \<open>The actual series\<close>






end
